theory Spec2Isabelle
  imports Main "HOL-Library.Word"
begin

section \<open>Values, bytes and thrown errors\<close>

text \<open>
  A \<^verbatim>\<open>Uint8Array\<close> is a list of 8-bit words. A JavaScript string is a \<^typ>\<open>string\<close>;
  every character that matters to the code below (hex digits, the \<^verbatim>\<open>0x\<close> marker) is ASCII.
\<close>

type_synonym byte = "8 word"
type_synonym bytes = "byte list"

text \<open>
  The value a provider hands back is typed \<^verbatim>\<open>unknown\<close> in the source; the code only asks
  whether it is a non-empty string. The same holds for the \<^verbatim>\<open>typeof\<close> guard of the
  address validator.
\<close>

datatype js_value = JsString string | JsNonString

text \<open>
  What a \<^verbatim>\<open>throw\<close> (or a rejected promise) carries: an \<^verbatim>\<open>Error\<close> instance with its
  message, or some other value. The source has no error classes of its own: every error
  it raises is \<^verbatim>\<open>new Error(message)\<close>.
\<close>

datatype js_exn = JsError string | JsNonError js_value

section \<open>Hex decoding: \<^verbatim>\<open>Buffer.from(s, 'hex')\<close>\<close>

text \<open>
  The platform's decoder, as the Node.js Buffer documentation describes it: the string is
  read two characters at a time; decoding stops at the first pair that is not two
  hexadecimal digits, and a single trailing character is dropped. It never throws.

  The model is exact on pairs of ASCII hex digits, where every implementation agrees.
  On other pairs implementations differ (Node reads the low byte of each UTF-16 unit,
  the browser Buffer package parses a pair with \<^verbatim>\<open>parseInt\<close>), and a \<^typ>\<open>char\<close> here
  has 8 bits. The statement for claim C3 is therefore confined to a leading run of hex
  digits.
\<close>

definition hex_value :: "char \<Rightarrow> nat option" where
  "hex_value c =
     (let n = (of_char c :: nat) in
      if 48 \<le> n \<and> n \<le> 57 then Some (n - 48)
      else if 97 \<le> n \<and> n \<le> 102 then Some (n - 87)
      else if 65 \<le> n \<and> n \<le> 70 then Some (n - 55)
      else None)"

definition is_hex_digit :: "char \<Rightarrow> bool" where
  "is_hex_digit c = (hex_value c \<noteq> None)"

fun buffer_from_hex :: "string \<Rightarrow> bytes" where
  "buffer_from_hex (a # b # rest) =
     (case hex_value a of
        None \<Rightarrow> []
      | Some h \<Rightarrow>
          (case hex_value b of
             None \<Rightarrow> []
           | Some l \<Rightarrow> of_nat (16 * h + l) # buffer_from_hex rest))"
| "buffer_from_hex _ = []"

text \<open>The lower-case hex rendering of a byte string (\<^verbatim>\<open>Buffer.toString('hex')\<close>).\<close>

definition hex_digit :: "nat \<Rightarrow> char" where
  "hex_digit n = (if n < 10 then char_of (48 + n) else char_of (87 + n))"

fun to_hex :: "bytes \<Rightarrow> string" where
  "to_hex [] = []"
| "to_hex (b # bs) = hex_digit (unat b div 16) # hex_digit (unat b mod 16) # to_hex bs"

section \<open>The ledger library, as the code uses it\<close>

text \<open>
  \<^verbatim>\<open>algosdk\<close> is an external dependency. Its five entry points that the source calls are
  the fields of a record, so that every function below takes the library as a parameter.
  A call that throws is \<open>Inl\<close>.
\<close>

record keypair =
  addr :: string
  sk :: bytes

record decoded_address =
  publicKey :: bytes
  checksum :: bytes

record signed_result =
  txID :: string
  blob :: bytes

text \<open>
  The \<^verbatim>\<open>sig\<close> member of a decoded signed transaction, seen through the two property reads
  the verifier makes on it (\<^verbatim>\<open>.signers\<close> and \<^verbatim>\<open>.signer\<close>). A byte array has neither
  property; an object may have either.
\<close>

datatype sig_value =
    SigBytes bytes
  | SigObject "bytes list option" "bytes option"

fun prop_signers :: "sig_value \<Rightarrow> bytes list option" where
  "prop_signers (SigBytes _) = None"
| "prop_signers (SigObject ss _) = ss"

fun prop_signer :: "sig_value \<Rightarrow> bytes option" where
  "prop_signer (SigBytes _) = None"
| "prop_signer (SigObject _ s) = s"

record signed_transaction =
  txn :: bytes
  sig :: "sig_value option"

record algosdk =
  secretKeyToMnemonic :: "bytes \<Rightarrow> js_exn + string"
  mnemonicToSecretKey :: "string \<Rightarrow> js_exn + keypair"
  signTransaction :: "bytes \<Rightarrow> bytes \<Rightarrow> js_exn + signed_result"
  decodeSignedTransaction :: "bytes \<Rightarrow> js_exn + signed_transaction"
  decodeAddress :: "string \<Rightarrow> js_exn + decoded_address"

section \<open>algorandAdapter.ts\<close>

record AlgorandAccountFromWeb3Auth =
  address :: string
  mnemonic :: string
  secretKey :: bytes

text \<open>
  An \<^verbatim>\<open>IProvider\<close>, reduced to the one member the code calls: \<^verbatim>\<open>request\<close>, from the
  method name to the awaited result or the rejection.
\<close>

record provider =
  request :: "string \<Rightarrow> js_exn + js_value"

definition strip_0x :: "string \<Rightarrow> string" where
  "strip_0x privKey = (if take 2 privKey = ''0x'' then drop 2 privKey else privKey)"

text \<open>The body of the \<^verbatim>\<open>try\<close> block of \<^verbatim>\<open>getAlgorandAccount\<close>, from the bytes on.\<close>

definition account_from_bytes :: "algosdk \<Rightarrow> bytes \<Rightarrow> js_exn + AlgorandAccountFromWeb3Auth" where
  "account_from_bytes lib privateKeyBytes =
     (let ed25519SecretKey = take 32 privateKeyBytes in
      case secretKeyToMnemonic lib ed25519SecretKey of
        Inl e \<Rightarrow> Inl e
      | Inr m \<Rightarrow>
          (case mnemonicToSecretKey lib m of
             Inl e \<Rightarrow> Inl e
           | Inr accountFromMnemonic \<Rightarrow>
               Inr \<lparr>address = addr accountFromMnemonic, mnemonic = m,
                    secretKey = sk accountFromMnemonic\<rparr>))"

definition derive_body :: "algosdk \<Rightarrow> provider \<Rightarrow> js_exn + AlgorandAccountFromWeb3Auth" where
  "derive_body lib p =
     (case request p ''private_key'' of
        Inl e \<Rightarrow> Inl e
      | Inr v \<Rightarrow>
          (case v of
             JsNonString \<Rightarrow>
               Inl (JsError ''Failed to retrieve private key from Web3Auth provider'')
           | JsString privKey \<Rightarrow>
               if privKey = []
               then Inl (JsError ''Failed to retrieve private key from Web3Auth provider'')
               else account_from_bytes lib (buffer_from_hex (strip_0x privKey))))"

text \<open>The \<^verbatim>\<open>catch\<close> block: an \<^verbatim>\<open>Error\<close> is wrapped, anything else is rethrown as it is.\<close>

fun derive_catch :: "js_exn \<Rightarrow> js_exn" where
  "derive_catch (JsError m) =
     JsError (''Failed to derive Algorand account from Web3Auth: '' @ m)"
| "derive_catch e = e"

definition getAlgorandAccount ::
    "algosdk \<Rightarrow> provider option \<Rightarrow> js_exn + AlgorandAccountFromWeb3Auth" where
  "getAlgorandAccount lib prov =
     (case prov of
        None \<Rightarrow> Inl (JsError ''Provider is required to derive Algorand account'')
      | Some p \<Rightarrow>
          (case derive_body lib p of
             Inl e \<Rightarrow> Inl (derive_catch e)
           | Inr a \<Rightarrow> Inr a))"

text \<open>
  \<^verbatim>\<open>createAlgorandSigner\<close>: the loop pushes each signed blob onto \<^verbatim>\<open>signedTxns\<close>; the first
  signing that throws ends the call with a new \<^verbatim>\<open>Error\<close>.
\<close>

fun sign_cause :: "js_exn \<Rightarrow> string" where
  "sign_cause (JsError m) = m"
| "sign_cause _ = ''Unknown error''"

fun sign_loop :: "algosdk \<Rightarrow> bytes \<Rightarrow> bytes list \<Rightarrow> bytes list \<Rightarrow> js_exn + bytes list" where
  "sign_loop lib key [] signedTxns = Inr signedTxns"
| "sign_loop lib key (t # ts) signedTxns =
     (case signTransaction lib t key of
        Inl e \<Rightarrow> Inl (JsError (''Failed to sign transaction: '' @ sign_cause e))
      | Inr signedTxn \<Rightarrow> sign_loop lib key ts (signedTxns @ [blob signedTxn]))"

definition createAlgorandSigner :: "algosdk \<Rightarrow> bytes \<Rightarrow> bytes list \<Rightarrow> js_exn + bytes list" where
  "createAlgorandSigner lib key transactions = sign_loop lib key transactions []"

definition isValidAlgorandAddress :: "algosdk \<Rightarrow> js_value \<Rightarrow> bool" where
  "isValidAlgorandAddress lib v =
     (case v of
        JsNonString \<Rightarrow> False
      | JsString a \<Rightarrow>
          if a = [] then False
          else (case decodeAddress lib a of Inl _ \<Rightarrow> False | Inr _ \<Rightarrow> True))"

text \<open>Decimal rendering of a length, for the message of \<^verbatim>\<open>getPublicKeyFromSecretKey\<close>.\<close>

fun show_nat :: "nat \<Rightarrow> string" where
  "show_nat n =
     (if n < 10 then [char_of (48 + n)]
      else show_nat (n div 10) @ [char_of (48 + n mod 10)])"

definition getPublicKeyFromSecretKey :: "bytes \<Rightarrow> js_exn + bytes" where
  "getPublicKeyFromSecretKey key =
     (if length key \<noteq> 64
      then Inl (JsError (''Invalid secret key length: expected 64 bytes, got '' @
                         show_nat (length key)))
      else Inr (drop 32 key))"

section \<open>web3authIntegration.ts\<close>

text \<open>
  \<^verbatim>\<open>decodedTxn.sig?.signers?.[0] ?? decodedTxn.sig?.signer\<close>: the first element of the
  \<^verbatim>\<open>signers\<close> list when there is one, else the \<^verbatim>\<open>signer\<close> member; \<open>None\<close> is
  \<^verbatim>\<open>undefined\<close>.
\<close>

definition first_signer :: "sig_value \<Rightarrow> bytes option" where
  "first_signer s =
     (case prop_signers s of
        None \<Rightarrow> None
      | Some ss \<Rightarrow> (case ss of [] \<Rightarrow> None | x # _ \<Rightarrow> Some x))"

definition txn_signer :: "signed_transaction \<Rightarrow> bytes option" where
  "txn_signer decodedTxn =
     (case sig decodedTxn of
        None \<Rightarrow> None
      | Some s \<Rightarrow>
          (case first_signer s of
             Some x \<Rightarrow> Some x
           | None \<Rightarrow> prop_signer s))"

definition verifyWeb3AuthSignature ::
    "algosdk \<Rightarrow> bytes \<Rightarrow> AlgorandAccountFromWeb3Auth \<Rightarrow> bool" where
  "verifyWeb3AuthSignature lib signedTransaction account =
     (case decodeSignedTransaction lib signedTransaction of
        Inl _ \<Rightarrow> False
      | Inr decodedTxn \<Rightarrow>
          (case txn_signer decodedTxn of
             None \<Rightarrow> False
           | Some txnSigner \<Rightarrow>
               (case decodeAddress lib (address account) of
                  Inl _ \<Rightarrow> False
                | Inr decodedAddress \<Rightarrow> txnSigner = publicKey decodedAddress)))"

declare show_nat.simps [simp del]

section \<open>What the code relies on from the library\<close>

text \<open>
  The adapter has no length check, no key derivation and no checksum of its own; it
  passes bytes to the library and returns what comes back. The properties of the library
  that the results below depend on are stated here, each as a predicate on the parameter.
\<close>

text \<open>\<^verbatim>\<open>secretKeyToMnemonic\<close> throws on a seed of fewer than 32 bytes.\<close>

definition rejects_short_seed :: "algosdk \<Rightarrow> bool" where
  "rejects_short_seed lib =
     (\<forall>seed. length seed < 32 \<longrightarrow> (\<exists>e. secretKeyToMnemonic lib seed = Inl e))"

text \<open>
  A 32-byte seed has a mnemonic, and \<^verbatim>\<open>mnemonicToSecretKey\<close> of that mnemonic is a key
  pair whose secret key starts with the seed.
\<close>

definition mnemonic_round_trip :: "algosdk \<Rightarrow> bool" where
  "mnemonic_round_trip lib =
     (\<forall>seed. length seed = 32 \<longrightarrow>
        (\<exists>m kp. secretKeyToMnemonic lib seed = Inr m \<and>
                mnemonicToSecretKey lib m = Inr kp \<and> take 32 (sk kp) = seed))"

text \<open>
  Every key pair \<^verbatim>\<open>mnemonicToSecretKey\<close> returns has a 64-byte secret key, and its
  address decodes to the last 32 bytes of that key.
\<close>

definition keypair_agrees :: "algosdk \<Rightarrow> bool" where
  "keypair_agrees lib =
     (\<forall>m kp. mnemonicToSecretKey lib m = Inr kp \<longrightarrow>
        length (sk kp) = 64 \<and>
        (\<exists>d. decodeAddress lib (addr kp) = Inr d \<and> publicKey d = drop 32 (sk kp)))"

text \<open>\<^verbatim>\<open>decodeAddress\<close> throws on the empty string.\<close>

definition rejects_empty_address :: "algosdk \<Rightarrow> bool" where
  "rejects_empty_address lib = (\<exists>e. decodeAddress lib [] = Inl e)"

section \<open>A small executable instance of the library\<close>

text \<open>
  Same shapes and the same failure conditions as the library's entry points, with toy
  encodings in place of Ed25519, SHA-512/256, base32 and the word list: the public key
  is the reversed seed, the mnemonic is the seed in hex, an address is the public key
  followed by a one-byte sum, in hex. A decoded signed transaction has the shape the
  library declares for it: \<^verbatim>\<open>sig\<close> is the 64-byte signature itself.
\<close>

definition toy_public_key :: "bytes \<Rightarrow> bytes" where
  "toy_public_key seed = rev seed"

definition toy_checksum :: "bytes \<Rightarrow> byte" where
  "toy_checksum pk = sum_list pk"

definition toy_encodeAddress :: "bytes \<Rightarrow> string" where
  "toy_encodeAddress pk = to_hex (pk @ [toy_checksum pk])"

definition toy_decodeAddress :: "string \<Rightarrow> js_exn + decoded_address" where
  "toy_decodeAddress a =
     (let raw = buffer_from_hex a in
      if length a = 66 \<and> length raw = 33 \<and> drop 32 raw = [toy_checksum (take 32 raw)]
      then Inr \<lparr>publicKey = take 32 raw, checksum = drop 32 raw\<rparr>
      else Inl (JsError ''address seems to be malformed''))"

definition toy_secretKeyToMnemonic :: "bytes \<Rightarrow> js_exn + string" where
  "toy_secretKeyToMnemonic key =
     (let seed = take 32 key in
      if length seed \<noteq> 32 then Inl (JsError ''Seed length must be 32'')
      else Inr (to_hex seed))"

definition toy_mnemonicToSecretKey :: "string \<Rightarrow> js_exn + keypair" where
  "toy_mnemonicToSecretKey m =
     (let seed = buffer_from_hex m in
      if length m = 64 \<and> length seed = 32
      then Inr \<lparr>addr = toy_encodeAddress (toy_public_key seed),
                sk = seed @ toy_public_key seed\<rparr>
      else Inl (JsError ''failed to decode mnemonic''))"

definition toy_signature :: "bytes \<Rightarrow> bytes \<Rightarrow> bytes" where
  "toy_signature key t = map (\<lambda>k. k + sum_list t) key"

definition toy_signTransaction :: "bytes \<Rightarrow> bytes \<Rightarrow> js_exn + signed_result" where
  "toy_signTransaction t key =
     (if t = [] \<or> length key \<noteq> 64 then Inl (JsError ''malformed transaction'')
      else Inr \<lparr>txID = to_hex (take 4 t), blob = toy_signature key t @ t\<rparr>)"

definition toy_decodeSignedTransaction :: "bytes \<Rightarrow> js_exn + signed_transaction" where
  "toy_decodeSignedTransaction b =
     (if length b \<le> 64 then Inl (JsError ''malformed signed transaction'')
      else Inr \<lparr>txn = drop 64 b, sig = Some (SigBytes (take 64 b))\<rparr>)"

definition toy_algosdk :: algosdk where
  "toy_algosdk =
     \<lparr>secretKeyToMnemonic = toy_secretKeyToMnemonic,
      mnemonicToSecretKey = toy_mnemonicToSecretKey,
      signTransaction = toy_signTransaction,
      decodeSignedTransaction = toy_decodeSignedTransaction,
      decodeAddress = toy_decodeAddress\<rparr>"

text \<open>A provider whose \<^verbatim>\<open>private_key\<close> request resolves to the given string.\<close>

definition string_provider :: "string \<Rightarrow> provider" where
  "string_provider k =
     \<lparr>request = (\<lambda>method. if method = ''private_key'' then Inr (JsString k)
                           else Inl (JsError ''method not supported''))\<rparr>"

text \<open>
  Sample inputs: the seed \<open>00 01 ... 1f\<close> in hex, the account the instance above derives
  from it, one transaction and its signed form under that account's key.
\<close>

definition sample_key_hex :: string where
  "sample_key_hex = ''000102030405060708090a0b0c0d0e0f101112131415161718191a1b1c1d1e1f''"

definition sample_account :: AlgorandAccountFromWeb3Auth where
  "sample_account =
     \<lparr>address = ''1f1e1d1c1b1a191817161514131211100f0e0d0c0b0a09080706050403020100f0'',
      mnemonic = ''000102030405060708090a0b0c0d0e0f101112131415161718191a1b1c1d1e1f'',
      secretKey =
        [0, 1, 2, 3, 4, 5, 6, 7, 8, 9, 10, 11, 12, 13, 14, 15, 16, 17, 18, 19, 20, 21,
         22, 23, 24, 25, 26, 27, 28, 29, 30, 31, 31, 30, 29, 28, 27, 26, 25, 24, 23, 22,
         21, 20, 19, 18, 17, 16, 15, 14, 13, 12, 11, 10, 9, 8, 7, 6, 5, 4, 3, 2, 1, 0]\<rparr>"

definition sample_txn :: bytes where
  "sample_txn = [1, 2, 3]"

definition sample_signed :: bytes where
  "sample_signed =
     [6, 7, 8, 9, 10, 11, 12, 13, 14, 15, 16, 17, 18, 19, 20, 21, 22, 23, 24, 25, 26,
      27, 28, 29, 30, 31, 32, 33, 34, 35, 36, 37, 37, 36, 35, 34, 33, 32, 31, 30, 29,
      28, 27, 26, 25, 24, 23, 22, 21, 20, 19, 18, 17, 16, 15, 14, 13, 12, 11, 10, 9, 8,
      7, 6, 1, 2, 3]"

text \<open>
  A variant of the instance whose decoder returns an object with a \<^verbatim>\<open>signer\<close> member
  holding the signing public key, the shape the verifier reads.
\<close>

definition toy_decode_with_signer :: "bytes \<Rightarrow> js_exn + signed_transaction" where
  "toy_decode_with_signer b =
     (if length b \<le> 64 then Inl (JsError ''malformed signed transaction'')
      else Inr \<lparr>txn = drop 64 b,
                sig = Some (SigObject None
                  (Some (map (\<lambda>k. k - sum_list (drop 64 b)) (drop 32 (take 64 b)))))\<rparr>)"

definition toy_algosdk_with_signer :: algosdk where
  "toy_algosdk_with_signer =
     \<lparr>secretKeyToMnemonic = toy_secretKeyToMnemonic,
      mnemonicToSecretKey = toy_mnemonicToSecretKey,
      signTransaction = toy_signTransaction,
      decodeSignedTransaction = toy_decode_with_signer,
      decodeAddress = toy_decodeAddress\<rparr>"

section \<open>Facts about hex decoding\<close>

lemma hex_value_x: "hex_value (CHR ''x'') = None"
  by (simp add: hex_value_def)

lemma hex_value_hex_digit: "n < 16 \<Longrightarrow> hex_value (hex_digit n) = Some n"
  by (simp add: hex_value_def hex_digit_def)

lemma byte_of_nibbles: "(of_nat (16 * (unat b div 16) + unat b mod 16) :: byte) = b"
  by (simp add: mult.commute)

lemma high_nibble_less: "unat (b :: byte) div 16 < 16"
proof -
  have "unat b < 256" using unsigned_less [of b, where ?'a = nat] by simp
  then show ?thesis by arith
qed

text \<open>Decoding inverts the lower-case rendering, which has two characters per byte.\<close>

lemma buffer_from_hex_to_hex: "buffer_from_hex (to_hex bs) = bs"
proof (induction bs)
  case Nil
  show ?case by simp
next
  case (Cons b bs)
  have "hex_value (hex_digit (unat b div 16)) = Some (unat b div 16)"
    by (rule hex_value_hex_digit) (rule high_nibble_less)
  moreover have "hex_value (hex_digit (unat b mod 16)) = Some (unat b mod 16)"
    by (rule hex_value_hex_digit) simp
  ultimately show ?case
    using Cons.IH byte_of_nibbles [of b] by (simp del: of_nat_add of_nat_mult)
qed

lemma length_to_hex: "length (to_hex bs) = 2 * length bs"
  by (induction bs) simp_all

text \<open>
  The decoder yields at least \<open>n\<close> bytes exactly when the first \<open>2 * n\<close> characters
  exist and are all hex digits; those bytes are then the decoding of that prefix.
\<close>

lemma buffer_from_hex_reaches:
  "n \<le> length (buffer_from_hex s) \<longleftrightarrow>
     2 * n \<le> length s \<and> (\<forall>c \<in> set (take (2 * n) s). is_hex_digit c)"
proof (induction s arbitrary: n rule: buffer_from_hex.induct)
  case (1 a b rest)
  show ?case
  proof (cases n)
    case 0
    then show ?thesis by simp
  next
    case (Suc m)
    then show ?thesis
      using "1.IH" [of _ _ m]
      by (auto simp: is_hex_digit_def split: option.splits)
  qed
qed auto

lemma buffer_from_hex_take:
  "n \<le> length (buffer_from_hex s) \<Longrightarrow>
     buffer_from_hex (take (2 * n) s) = take n (buffer_from_hex s)"
proof (induction s arbitrary: n rule: buffer_from_hex.induct)
  case (1 a b rest)
  show ?case
  proof (cases n)
    case 0
    then show ?thesis by simp
  next
    case (Suc m)
    then show ?thesis
      using "1.IH" [of _ _ m] "1.prems"
      by (auto split: option.splits)
  qed
qed simp_all

text \<open>A string whose first pair decodes does not start with the \<^verbatim>\<open>0x\<close> marker.\<close>

lemma strip_0x_decodable: "buffer_from_hex s \<noteq> [] \<Longrightarrow> strip_0x s = s"
proof (cases s rule: buffer_from_hex.cases)
  case (1 a b rest)
  assume "buffer_from_hex s \<noteq> []"
  with 1 have "hex_value b \<noteq> None" by (auto split: option.splits)
  then have "b \<noteq> CHR ''x''" using hex_value_x by auto
  with 1 show ?thesis by (simp add: strip_0x_def)
qed simp_all

section \<open>The instance meets what the code relies on\<close>

lemma toy_rejects_short_seed: "rejects_short_seed toy_algosdk"
  by (simp add: rejects_short_seed_def toy_algosdk_def toy_secretKeyToMnemonic_def)

lemma toy_mnemonic_round_trip: "mnemonic_round_trip toy_algosdk"
  by (simp add: mnemonic_round_trip_def toy_algosdk_def toy_secretKeyToMnemonic_def
      toy_mnemonicToSecretKey_def length_to_hex buffer_from_hex_to_hex)

lemma toy_decode_encode:
  "length pk = 32 \<Longrightarrow>
     toy_decodeAddress (toy_encodeAddress pk) = Inr \<lparr>publicKey = pk, checksum = [toy_checksum pk]\<rparr>"
  by (simp add: toy_decodeAddress_def toy_encodeAddress_def length_to_hex buffer_from_hex_to_hex)

lemma toy_keypair_agrees: "keypair_agrees toy_algosdk"
  unfolding keypair_agrees_def
proof (intro allI impI)
  fix m kp
  assume "mnemonicToSecretKey toy_algosdk m = Inr kp"
  then have len: "length (buffer_from_hex m) = 32"
    and kp: "kp = \<lparr>addr = toy_encodeAddress (toy_public_key (buffer_from_hex m)),
                   sk = buffer_from_hex m @ toy_public_key (buffer_from_hex m)\<rparr>"
    by (auto simp: toy_algosdk_def toy_mnemonicToSecretKey_def Let_def split: if_splits)
  have "length (toy_public_key (buffer_from_hex m)) = 32"
    using len by (simp add: toy_public_key_def)
  then show "length (sk kp) = 64 \<and>
        (\<exists>d. decodeAddress toy_algosdk (addr kp) = Inr d \<and> publicKey d = drop 32 (sk kp))"
    using len kp toy_decode_encode [of "toy_public_key (buffer_from_hex m)"]
    by (simp add: toy_algosdk_def)
qed

lemma toy_rejects_empty_address: "rejects_empty_address toy_algosdk"
  by (simp add: rejects_empty_address_def toy_algosdk_def toy_decodeAddress_def)

text \<open>The sample account and the sample signed transaction are what the instance computes.\<close>

lemma sample_derivation:
  "getAlgorandAccount toy_algosdk (Some (string_provider sample_key_hex)) = Inr sample_account"
  by code_simp

lemma sample_signing:
  "createAlgorandSigner toy_algosdk (secretKey sample_account) [sample_txn] = Inr [sample_signed]"
  by code_simp

section \<open>Key adapter\<close>

text \<open>
  With a non-empty string from the provider, \<^verbatim>\<open>getAlgorandAccount\<close> is the library round
  trip on the decoded bytes, its error passed through the \<^verbatim>\<open>catch\<close> block. Nothing on
  the way from the string to the bytes can throw.
\<close>

lemma getAlgorandAccount_string:
  assumes "request p ''private_key'' = Inr (JsString k)" and "k \<noteq> []"
  shows "getAlgorandAccount lib (Some p) =
           (case account_from_bytes lib (buffer_from_hex (strip_0x k)) of
              Inl e \<Rightarrow> Inl (derive_catch e) | Inr a \<Rightarrow> Inr a)"
  using assms by (simp add: getAlgorandAccount_def derive_body_def)

lemma account_from_bytes_short:
  assumes "length bs < 32" and "secretKeyToMnemonic lib bs = Inl e"
  shows "account_from_bytes lib bs = Inl e"
  using assms by (simp add: account_from_bytes_def)

lemma account_from_bytes_long:
  assumes "mnemonic_round_trip lib" and "32 \<le> length bs"
  shows "\<exists>m kp. secretKeyToMnemonic lib (take 32 bs) = Inr m \<and>
           mnemonicToSecretKey lib m = Inr kp \<and> take 32 (sk kp) = take 32 bs \<and>
           account_from_bytes lib bs = Inr \<lparr>address = addr kp, mnemonic = m, secretKey = sk kp\<rparr>"
proof -
  have "length (take 32 bs) = 32" using assms(2) by simp
  with assms(1) obtain m kp where
    "secretKeyToMnemonic lib (take 32 bs) = Inr m" "mnemonicToSecretKey lib m = Inr kp"
    "take 32 (sk kp) = take 32 bs"
    unfolding mnemonic_round_trip_def by blast
  then show ?thesis by (auto simp: account_from_bytes_def)
qed

lemma account_from_bytes_error_origin:
  assumes "account_from_bytes lib bs = Inl e"
  shows "(\<exists>seed. secretKeyToMnemonic lib seed = Inl e) \<or>
         (\<exists>m. mnemonicToSecretKey lib m = Inl e)"
proof (cases "secretKeyToMnemonic lib (take 32 bs)")
  case (Inl e')
  with assms have "e' = e" by (simp add: account_from_bytes_def)
  with Inl show ?thesis by blast
next
  case (Inr m)
  with assms have "mnemonicToSecretKey lib m = Inl e"
    by (auto simp: account_from_bytes_def split: sum.splits)
  then show ?thesis by blast
qed

text \<open>
  Claim C2. For every hex input whose decoded byte string is shorter than 32 bytes,
  \<^verbatim>\<open>getAlgorandAccount\<close> fails and does not pad the key. The source has no length check
  and no error class of its own: the seed handed to \<^verbatim>\<open>secretKeyToMnemonic\<close> is the decoded
  byte string as it is (fewer than 32 bytes), the library refuses it, and the \<^verbatim>\<open>catch\<close>
  block rethrows that refusal as \<^verbatim>\<open>Error('Failed to derive Algorand account from
  Web3Auth: ' + cause)\<close>. The empty string never reaches the library: it fails the
  private-key check inside the same \<^verbatim>\<open>try\<close>.
\<close>

theorem getAlgorandAccount_short_key:
  assumes lib: "rejects_short_seed lib"
    and req: "request p ''private_key'' = Inr (JsString k)"
    and short: "length (buffer_from_hex (strip_0x k)) < 32"
  shows "\<exists>e. getAlgorandAccount lib (Some p) = Inl (derive_catch e) \<and>
             (k = [] \<or> secretKeyToMnemonic lib (buffer_from_hex (strip_0x k)) = Inl e)"
proof (cases "k = []")
  case True
  with req have "getAlgorandAccount lib (Some p) =
      Inl (derive_catch (JsError ''Failed to retrieve private key from Web3Auth provider''))"
    by (simp add: getAlgorandAccount_def derive_body_def)
  with True show ?thesis by blast
next
  case False
  from lib short obtain e where e: "secretKeyToMnemonic lib (buffer_from_hex (strip_0x k)) = Inl e"
    unfolding rejects_short_seed_def by blast
  have "getAlgorandAccount lib (Some p) = Inl (derive_catch e)"
    using getAlgorandAccount_string [OF req False, of lib] account_from_bytes_short [OF short e]
    by simp
  with e show ?thesis by blast
qed

text \<open>The input \<^verbatim>\<open>"abcd"\<close> decodes to 2 bytes and fails with the library's seed-length cause.\<close>

theorem getAlgorandAccount_short_key_witness:
  "length (buffer_from_hex (strip_0x ''abcd'')) = 2 \<and>
   getAlgorandAccount toy_algosdk (Some (string_provider ''abcd'')) =
     Inl (JsError ''Failed to derive Algorand account from Web3Auth: Seed length must be 32'')"
proof -
  have req: "request (string_provider ''abcd'') ''private_key'' = Inr (JsString ''abcd'')"
    by (simp add: string_provider_def)
  have len: "length (buffer_from_hex (strip_0x ''abcd'')) = 2"
    by (simp add: strip_0x_def hex_value_def)
  then have short: "length (buffer_from_hex (strip_0x ''abcd'')) < 32" by simp
  have lib: "secretKeyToMnemonic toy_algosdk (buffer_from_hex (strip_0x ''abcd'')) =
      Inl (JsError ''Seed length must be 32'')"
    using len by (simp add: toy_algosdk_def toy_secretKeyToMnemonic_def)
  from getAlgorandAccount_short_key [OF toy_rejects_short_seed req short] lib len
  show ?thesis by auto
qed

text \<open>
  Claim C3, as the code has it. For an input string of odd length or with a non-hex
  character, \<^verbatim>\<open>getAlgorandAccount\<close> raises no error at the hex-decoding step: it either
  returns an account, or fails with an error that the library threw
  (\<^verbatim>\<open>secretKeyToMnemonic\<close> or \<^verbatim>\<open>mnemonicToSecretKey\<close>), passed through the \<^verbatim>\<open>catch\<close>
  block. When the first 64 characters after the optional \<^verbatim>\<open>0x\<close> are hex digits, it
  returns the account of those 64 digits, whatever follows them. What happens when a
  character that is no hex digit stands among the first 64 is left to the platform's
  decoder and is not stated.
\<close>

theorem getAlgorandAccount_no_decode_error:
  assumes rt: "mnemonic_round_trip lib"
    and req: "request p ''private_key'' = Inr (JsString k)" and ne: "k \<noteq> []"
    and req': "request p' ''private_key'' = Inr (JsString (take 64 (strip_0x k)))"
  shows "((\<exists>a. getAlgorandAccount lib (Some p) = Inr a) \<or>
          (\<exists>e. getAlgorandAccount lib (Some p) = Inl (derive_catch e) \<and>
               ((\<exists>seed. secretKeyToMnemonic lib seed = Inl e) \<or>
                (\<exists>m. mnemonicToSecretKey lib m = Inl e)))) \<and>
         (64 \<le> length (strip_0x k) \<and> (\<forall>c \<in> set (take 64 (strip_0x k)). is_hex_digit c) \<longrightarrow>
            (\<exists>a. getAlgorandAccount lib (Some p) = Inr a \<and>
                 getAlgorandAccount lib (Some p') = Inr a))"
proof
  let ?s = "strip_0x k"
  have run: "getAlgorandAccount lib (Some p) =
      (case account_from_bytes lib (buffer_from_hex ?s) of
         Inl e \<Rightarrow> Inl (derive_catch e) | Inr a \<Rightarrow> Inr a)"
    by (rule getAlgorandAccount_string [OF req ne])
  show "(\<exists>a. getAlgorandAccount lib (Some p) = Inr a) \<or>
        (\<exists>e. getAlgorandAccount lib (Some p) = Inl (derive_catch e) \<and>
             ((\<exists>seed. secretKeyToMnemonic lib seed = Inl e) \<or>
              (\<exists>m. mnemonicToSecretKey lib m = Inl e)))"
  proof (cases "account_from_bytes lib (buffer_from_hex ?s)")
    case (Inl e)
    with run account_from_bytes_error_origin [OF Inl] show ?thesis by auto
  next
    case (Inr a)
    with run show ?thesis by simp
  qed
  show "64 \<le> length ?s \<and> (\<forall>c \<in> set (take 64 ?s). is_hex_digit c) \<longrightarrow>
      (\<exists>a. getAlgorandAccount lib (Some p) = Inr a \<and> getAlgorandAccount lib (Some p') = Inr a)"
  proof
    assume hex: "64 \<le> length ?s \<and> (\<forall>c \<in> set (take 64 ?s). is_hex_digit c)"
    then have reach: "32 \<le> length (buffer_from_hex ?s)"
      using buffer_from_hex_reaches [of 32 ?s] by simp
    have pre: "buffer_from_hex (take 64 ?s) = take 32 (buffer_from_hex ?s)"
      using buffer_from_hex_take [OF reach] by simp
    then have dec: "buffer_from_hex (take 64 ?s) \<noteq> []" using reach by auto
    then have ne': "take 64 ?s \<noteq> []" by auto
    have strip': "strip_0x (take 64 ?s) = take 64 ?s" by (rule strip_0x_decodable [OF dec])
    have same: "account_from_bytes lib (buffer_from_hex (take 64 ?s)) =
        account_from_bytes lib (buffer_from_hex ?s)"
      by (simp add: pre account_from_bytes_def)
    from account_from_bytes_long [OF rt reach] obtain a where
      a: "account_from_bytes lib (buffer_from_hex ?s) = Inr a" by blast
    have "getAlgorandAccount lib (Some p) = Inr a" using run a by simp
    moreover have "getAlgorandAccount lib (Some p') = Inr a"
      using getAlgorandAccount_string [OF req' ne', of lib] a same strip' by simp
    ultimately show "\<exists>a. getAlgorandAccount lib (Some p) = Inr a \<and>
        getAlgorandAccount lib (Some p') = Inr a" by blast
  qed
qed

text \<open>
  64 hex digits followed by \<^verbatim>\<open>zz9\<close>: odd length, non-hex characters, and the account
  of the 64 digits.
\<close>

theorem getAlgorandAccount_no_decode_error_witness:
  "odd (length (strip_0x (sample_key_hex @ ''zz9''))) \<and>
   \<not> is_hex_digit (CHR ''z'') \<and>
   take 64 (strip_0x (sample_key_hex @ ''zz9'')) = sample_key_hex \<and>
   getAlgorandAccount toy_algosdk (Some (string_provider (sample_key_hex @ ''zz9''))) =
     Inr sample_account"
proof -
  let ?k = "sample_key_hex @ ''zz9''"
  have req: "request (string_provider ?k) ''private_key'' = Inr (JsString ?k)"
    by (simp add: string_provider_def)
  have ne: "?k \<noteq> []" by simp
  have pre: "take 64 (strip_0x ?k) = sample_key_hex" by code_simp
  have req': "request (string_provider sample_key_hex) ''private_key'' =
      Inr (JsString (take 64 (strip_0x ?k)))"
    by (simp add: string_provider_def pre)
  have shape: "odd (length (strip_0x ?k))" "\<not> is_hex_digit (CHR ''z'')" by code_simp+
  have hex: "64 \<le> length (strip_0x ?k) \<and> (\<forall>c \<in> set (take 64 (strip_0x ?k)). is_hex_digit c)"
    by code_simp
  from getAlgorandAccount_no_decode_error [OF toy_mnemonic_round_trip req ne req'] hex
  have "\<exists>a. getAlgorandAccount toy_algosdk (Some (string_provider ?k)) = Inr a \<and>
      getAlgorandAccount toy_algosdk (Some (string_provider sample_key_hex)) = Inr a"
    by blast
  with sample_derivation shape pre show ?thesis by auto
qed

text \<open>
  Claim C3 as stated fails: 64 hex digits followed by \<^verbatim>\<open>z\<close> is an input of odd length
  with a non-hex character, and the derivation succeeds on it, with the account of the
  64 digits.
\<close>

theorem odd_non_hex_input_accepted:
  "odd (length (strip_0x (sample_key_hex @ ''z''))) \<and>
   \<not> is_hex_digit (CHR ''z'') \<and>
   getAlgorandAccount toy_algosdk (Some (string_provider (sample_key_hex @ ''z''))) =
     Inr sample_account"
  by code_simp

text \<open>
  Claim C5. For every account \<^verbatim>\<open>getAlgorandAccount\<close> returns, the secret key has 64
  bytes, \<^verbatim>\<open>getPublicKeyFromSecretKey\<close> of it is its bytes 32 to 63, and the account's
  address decodes to exactly those bytes. The address and the secret key are the two
  members of the one key pair \<^verbatim>\<open>mnemonicToSecretKey\<close> returned.
\<close>

theorem derived_account_keys_agree:
  assumes lib: "keypair_agrees lib"
    and acc: "getAlgorandAccount lib prov = Inr a"
  shows "length (secretKey a) = 64 \<and>
         getPublicKeyFromSecretKey (secretKey a) = Inr (take 32 (drop 32 (secretKey a))) \<and>
         (\<exists>d. decodeAddress lib (address a) = Inr d \<and>
              publicKey d = take 32 (drop 32 (secretKey a)))"
proof -
  from acc obtain m kp where kp: "mnemonicToSecretKey lib m = Inr kp"
    and a: "a = \<lparr>address = addr kp, mnemonic = m, secretKey = sk kp\<rparr>"
    by (auto simp: getAlgorandAccount_def derive_body_def account_from_bytes_def Let_def
        split: option.splits sum.splits js_value.splits if_splits)
  from lib kp have len: "length (sk kp) = 64"
    and dec: "\<exists>d. decodeAddress lib (addr kp) = Inr d \<and> publicKey d = drop 32 (sk kp)"
    unfolding keypair_agrees_def by blast+
  from len have "take 32 (drop 32 (sk kp)) = drop 32 (sk kp)" by simp
  with len dec a show ?thesis by (simp add: getPublicKeyFromSecretKey_def)
qed

theorem derived_account_keys_agree_witness:
  "length (secretKey sample_account) = 64 \<and>
   getPublicKeyFromSecretKey (secretKey sample_account) =
     Inr (take 32 (drop 32 (secretKey sample_account))) \<and>
   (\<exists>d. decodeAddress toy_algosdk (address sample_account) = Inr d \<and>
        publicKey d = take 32 (drop 32 (secretKey sample_account)))"
  by (rule derived_account_keys_agree [OF toy_keypair_agrees sample_derivation])

text \<open>
  Claim C6. For every 32-byte seed \<open>S\<close> given as 64 hex characters \<open>h\<close> (either case),
  with or without the \<^verbatim>\<open>0x\<close> prefix, \<^verbatim>\<open>getAlgorandAccount\<close> returns an account whose
  mnemonic decodes, through \<^verbatim>\<open>mnemonicToSecretKey\<close>, to a secret key whose first 32 bytes
  are \<open>S\<close>; that secret key is the one the account carries.
\<close>

theorem derived_mnemonic_decodes_to_seed:
  assumes lib: "mnemonic_round_trip lib"
    and seed: "length S = 32"
    and hex: "length h = 64" "buffer_from_hex h = S"
    and k: "k = h \<or> k = ''0x'' @ h"
    and req: "request p ''private_key'' = Inr (JsString k)"
  shows "\<exists>a kp. getAlgorandAccount lib (Some p) = Inr a \<and>
           mnemonicToSecretKey lib (mnemonic a) = Inr kp \<and>
           take 32 (sk kp) = S \<and> secretKey a = sk kp"
proof -
  have "buffer_from_hex h \<noteq> []" using seed hex by auto
  then have "strip_0x h = h" by (rule strip_0x_decodable)
  moreover have "strip_0x (''0x'' @ h) = h" by (simp add: strip_0x_def)
  ultimately have strip: "strip_0x k = h" using k by auto
  have ne: "k \<noteq> []" using k hex(1) by auto
  have "32 \<le> length (buffer_from_hex (strip_0x k))" using strip hex seed by simp
  from account_from_bytes_long [OF lib this] obtain m kp where
    "mnemonicToSecretKey lib m = Inr kp" "take 32 (sk kp) = take 32 S"
    "account_from_bytes lib (buffer_from_hex (strip_0x k)) =
       Inr \<lparr>address = addr kp, mnemonic = m, secretKey = sk kp\<rparr>"
    using strip hex by auto
  then show ?thesis
    using getAlgorandAccount_string [OF req ne, of lib] seed by auto
qed

theorem derived_mnemonic_decodes_to_seed_witness:
  "getAlgorandAccount toy_algosdk (Some (string_provider (''0x'' @ sample_key_hex))) =
     Inr sample_account \<and>
   (\<exists>kp. mnemonicToSecretKey toy_algosdk (mnemonic sample_account) = Inr kp \<and>
         take 32 (sk kp) = buffer_from_hex sample_key_hex \<and>
         secretKey sample_account = sk kp)"
proof -
  let ?k = "''0x'' @ sample_key_hex"
  have len: "length (buffer_from_hex sample_key_hex) = 32" by code_simp
  have hex: "length sample_key_hex = 64" by code_simp
  have req: "request (string_provider ?k) ''private_key'' = Inr (JsString ?k)"
    by (simp add: string_provider_def)
  have full: "getAlgorandAccount toy_algosdk (Some (string_provider ?k)) = Inr sample_account"
    by code_simp
  from derived_mnemonic_decodes_to_seed
    [OF toy_mnemonic_round_trip len hex refl disjI2 [OF refl] req] full
  show ?thesis by auto
qed

text \<open>
  Claim C9. For every input whose decoded byte string is longer than 32 bytes,
  \<^verbatim>\<open>getAlgorandAccount\<close> succeeds and returns the same account as for the input made of
  the first 64 hex characters alone: the bytes after the 32nd never reach the library.
\<close>

theorem getAlgorandAccount_truncates:
  assumes lib: "mnemonic_round_trip lib"
    and req: "request p ''private_key'' = Inr (JsString k)"
    and req': "request p' ''private_key'' = Inr (JsString (take 64 (strip_0x k)))"
    and long: "32 < length (buffer_from_hex (strip_0x k))"
  shows "\<exists>a. getAlgorandAccount lib (Some p) = Inr a \<and> getAlgorandAccount lib (Some p') = Inr a"
proof -
  let ?s = "strip_0x k"
  have k: "k \<noteq> []" using long by (auto simp: strip_0x_def)
  have reach: "32 \<le> length (buffer_from_hex ?s)" using long by simp
  have pre: "buffer_from_hex (take 64 ?s) = take 32 (buffer_from_hex ?s)"
    using buffer_from_hex_take [OF reach] by simp
  then have ne: "buffer_from_hex (take 64 ?s) \<noteq> []" using reach by auto
  then have k': "take 64 ?s \<noteq> []" by auto
  have strip': "strip_0x (take 64 ?s) = take 64 ?s" by (rule strip_0x_decodable [OF ne])
  have same: "account_from_bytes lib (buffer_from_hex (take 64 ?s)) =
      account_from_bytes lib (buffer_from_hex ?s)"
    by (simp add: pre account_from_bytes_def)
  from account_from_bytes_long [OF lib reach] obtain a where
    a: "account_from_bytes lib (buffer_from_hex ?s) = Inr a" by blast
  have "getAlgorandAccount lib (Some p) = Inr a"
    using getAlgorandAccount_string [OF req k, of lib] a by simp
  moreover have "getAlgorandAccount lib (Some p') = Inr a"
    using getAlgorandAccount_string [OF req' k', of lib] a same strip' by simp
  ultimately show ?thesis by blast
qed

theorem getAlgorandAccount_truncates_witness:
  "32 < length (buffer_from_hex (strip_0x (sample_key_hex @ ''ff00''))) \<and>
   getAlgorandAccount toy_algosdk (Some (string_provider (sample_key_hex @ ''ff00''))) =
     Inr sample_account \<and>
   getAlgorandAccount toy_algosdk
     (Some (string_provider (take 64 (strip_0x (sample_key_hex @ ''ff00''))))) =
     Inr sample_account"
proof -
  let ?k = "sample_key_hex @ ''ff00''"
  have long: "32 < length (buffer_from_hex (strip_0x ?k))" by code_simp
  have full: "getAlgorandAccount toy_algosdk (Some (string_provider ?k)) = Inr sample_account"
    by code_simp
  have req: "request (string_provider ?k) ''private_key'' = Inr (JsString ?k)"
    by (simp add: string_provider_def)
  have req': "request (string_provider (take 64 (strip_0x ?k))) ''private_key'' =
      Inr (JsString (take 64 (strip_0x ?k)))"
    by (simp add: string_provider_def)
  from getAlgorandAccount_truncates [OF toy_mnemonic_round_trip req req' long] full long
  show ?thesis by auto
qed

text \<open>
  Claim C8. For every input string, \<^verbatim>\<open>isValidAlgorandAddress\<close> returns a boolean (the
  \<^verbatim>\<open>catch\<close> turns every throw of \<^verbatim>\<open>decodeAddress\<close> into \<open>False\<close>), and it returns
  \<open>True\<close> exactly when \<^verbatim>\<open>decodeAddress\<close> succeeds on the string. The empty string is
  answered \<open>False\<close> before the library is called, which agrees with the library refusing
  it.
\<close>

theorem isValidAlgorandAddress_iff_decodes:
  assumes "rejects_empty_address lib"
  shows "isValidAlgorandAddress lib (JsString s) \<longleftrightarrow> (\<exists>d. decodeAddress lib s = Inr d)"
proof (cases "s = []")
  case True
  with assms show ?thesis
    by (auto simp: isValidAlgorandAddress_def rejects_empty_address_def)
next
  case False
  then show ?thesis
    by (auto simp: isValidAlgorandAddress_def split: sum.splits)
qed

text \<open>
  A derived address is valid; the empty string, a string that is no address, and the
  derived address with its last character changed are not.
\<close>

theorem isValidAlgorandAddress_iff_decodes_witness:
  "isValidAlgorandAddress toy_algosdk (JsString (address sample_account)) \<and>
   \<not> isValidAlgorandAddress toy_algosdk (JsString []) \<and>
   \<not> isValidAlgorandAddress toy_algosdk (JsString ''not an address!'') \<and>
   \<not> isValidAlgorandAddress toy_algosdk
       (JsString ''1f1e1d1c1b1a191817161514131211100f0e0d0c0b0a09080706050403020100f1'')"
proof -
  note iff = isValidAlgorandAddress_iff_decodes [OF toy_rejects_empty_address]
  have good: "decodeAddress toy_algosdk (address sample_account) =
      Inr \<lparr>publicKey = drop 32 (secretKey sample_account), checksum = [240]\<rparr>"
    by code_simp
  have e: "decodeAddress toy_algosdk [] = Inl (JsError ''address seems to be malformed'')"
    by code_simp
  have g: "decodeAddress toy_algosdk ''not an address!'' =
      Inl (JsError ''address seems to be malformed'')"
    by code_simp
  have c: "decodeAddress toy_algosdk
      ''1f1e1d1c1b1a191817161514131211100f0e0d0c0b0a09080706050403020100f1'' =
      Inl (JsError ''address seems to be malformed'')"
    by code_simp
  show ?thesis
    using iff [of "address sample_account"] iff [of "[]"] iff [of "''not an address!''"]
      iff [of "''1f1e1d1c1b1a191817161514131211100f0e0d0c0b0a09080706050403020100f1''"]
      good e g c
    by simp
qed

section \<open>Signer\<close>

lemma sign_loop_all_ok:
  assumes "\<forall>t \<in> set ts. \<exists>s. signTransaction lib t key = Inr s"
  shows "sign_loop lib key ts acc =
           Inr (acc @ map (\<lambda>t. blob (projr (signTransaction lib t key))) ts)"
  using assms
proof (induction ts arbitrary: acc)
  case Nil
  show ?case by simp
next
  case (Cons t ts)
  from Cons.prems obtain s where s: "signTransaction lib t key = Inr s" by auto
  from Cons.prems have "\<forall>t \<in> set ts. \<exists>s. signTransaction lib t key = Inr s" by simp
  from Cons.IH [OF this, of "acc @ [blob s]"] s show ?case by simp
qed

lemma sign_loop_first_failure:
  assumes "j < length ts"
    and "\<forall>i<j. \<exists>s. signTransaction lib (ts ! i) key = Inr s"
    and "signTransaction lib (ts ! j) key = Inl e"
  shows "sign_loop lib key ts acc = Inl (JsError (''Failed to sign transaction: '' @ sign_cause e))"
  using assms
proof (induction ts arbitrary: j acc)
  case Nil
  then show ?case by simp
next
  case (Cons t ts)
  show ?case
  proof (cases j)
    case 0
    with Cons.prems show ?thesis by simp
  next
    case (Suc j')
    from Cons.prems(2) Suc obtain s where s: "signTransaction lib t key = Inr s" by force
    have len: "j' < length ts" using Cons.prems(1) Suc by simp
    have before: "\<forall>i<j'. \<exists>s. signTransaction lib (ts ! i) key = Inr s"
    proof (intro allI impI)
      fix i assume "i < j'"
      then have "Suc i < j" using Suc by simp
      with Cons.prems(2) show "\<exists>s. signTransaction lib (ts ! i) key = Inr s" by force
    qed
    have here: "signTransaction lib (ts ! j') key = Inl e" using Cons.prems(3) Suc by simp
    from Cons.IH [OF len before here, of "acc @ [blob s]"] s show ?thesis by simp
  qed
qed

text \<open>
  Claim C7. When every transaction of the input signs, the signer returns a list of the
  same length whose \<open>i\<close>-th element is the blob of signing the \<open>i\<close>-th input: each
  output depends on its own input and the key only.
\<close>

theorem signer_output_mirrors_input:
  assumes "\<forall>t \<in> set txns. \<exists>s. signTransaction lib t key = Inr s"
  shows "\<exists>out. createAlgorandSigner lib key txns = Inr out \<and> length out = length txns \<and>
           (\<forall>i<length txns. \<exists>s. signTransaction lib (txns ! i) key = Inr s \<and> out ! i = blob s)"
proof -
  let ?out = "map (\<lambda>t. blob (projr (signTransaction lib t key))) txns"
  have run: "createAlgorandSigner lib key txns = Inr ?out"
    using sign_loop_all_ok [OF assms, of "[]"] by (simp add: createAlgorandSigner_def)
  have "\<forall>i<length txns. \<exists>s. signTransaction lib (txns ! i) key = Inr s \<and> ?out ! i = blob s"
  proof (intro allI impI)
    fix i assume i: "i < length txns"
    then have "txns ! i \<in> set txns" by simp
    with assms obtain s where "signTransaction lib (txns ! i) key = Inr s" by blast
    with i show "\<exists>s. signTransaction lib (txns ! i) key = Inr s \<and> ?out ! i = blob s" by simp
  qed
  with run show ?thesis by simp
qed

theorem signer_output_mirrors_input_witness:
  "\<exists>out. createAlgorandSigner toy_algosdk (secretKey sample_account) [sample_txn, [7]] = Inr out \<and>
         length out = 2 \<and> out ! 0 = sample_signed"
proof -
  let ?key = "secretKey sample_account"
  have one: "signTransaction toy_algosdk sample_txn ?key =
      Inr \<lparr>txID = ''010203'', blob = sample_signed\<rparr>"
    by code_simp
  have two: "\<exists>s. signTransaction toy_algosdk [7] ?key = Inr s"
    by (simp add: toy_algosdk_def toy_signTransaction_def sample_account_def)
  have ok: "\<forall>t \<in> set [sample_txn, [7]]. \<exists>s. signTransaction toy_algosdk t ?key = Inr s"
    using one two by simp
  from signer_output_mirrors_input [OF ok] obtain out where
    out: "createAlgorandSigner toy_algosdk ?key [sample_txn, [7]] = Inr out" "length out = 2"
      "\<forall>i<2. \<exists>s. signTransaction toy_algosdk ([sample_txn, [7]] ! i) ?key = Inr s \<and> out ! i = blob s"
    by auto
  have "\<exists>s. signTransaction toy_algosdk sample_txn ?key = Inr s \<and> out ! 0 = blob s"
    using out(3) [rule_format, of 0] by simp
  with one have "out ! 0 = sample_signed" by simp
  with out(1,2) show ?thesis by simp
qed

text \<open>
  Claim C4, as the code has it. When the signing of the transaction at index \<open>k\<close> fails,
  the signer returns no list at all: it throws \<^verbatim>\<open>Error('Failed to sign transaction: ' +
  cause)\<close>, where the cause is the message of the first failing transaction (at some
  index \<open>j \<le> k\<close>), or \<^verbatim>\<open>'Unknown error'\<close> when what was thrown is no \<^verbatim>\<open>Error\<close>. The
  error carries no index.
\<close>

theorem signer_failure_has_no_partial_result:
  assumes k: "k < length txns" and fails: "signTransaction lib (txns ! k) key = Inl e"
  shows "\<exists>j e'. j \<le> k \<and> signTransaction lib (txns ! j) key = Inl e' \<and>
           (\<forall>i<j. \<exists>s. signTransaction lib (txns ! i) key = Inr s) \<and>
           createAlgorandSigner lib key txns =
             Inl (JsError (''Failed to sign transaction: '' @ sign_cause e'))"
proof -
  define j where "j = (LEAST i. \<exists>e'. signTransaction lib (txns ! i) key = Inl e')"
  have ex: "\<exists>e'. signTransaction lib (txns ! k) key = Inl e'" using fails by blast
  have jk: "j \<le> k" unfolding j_def by (rule Least_le) (rule ex)
  have "\<exists>e'. signTransaction lib (txns ! j) key = Inl e'"
    unfolding j_def by (rule LeastI [of _ k]) (rule ex)
  then obtain e' where e': "signTransaction lib (txns ! j) key = Inl e'" ..
  have before: "\<forall>i<j. \<exists>s. signTransaction lib (txns ! i) key = Inr s"
  proof (intro allI impI)
    fix i assume "i < j"
    then have "\<not> (\<exists>e'. signTransaction lib (txns ! i) key = Inl e')"
      unfolding j_def by (rule not_less_Least)
    then show "\<exists>s. signTransaction lib (txns ! i) key = Inr s"
      by (cases "signTransaction lib (txns ! i) key") auto
  qed
  have "j < length txns" using jk k by simp
  from sign_loop_first_failure [OF this before e', of "[]"]
  have "createAlgorandSigner lib key txns =
      Inl (JsError (''Failed to sign transaction: '' @ sign_cause e'))"
    by (simp add: createAlgorandSigner_def)
  with jk e' before show ?thesis by blast
qed

theorem signer_failure_has_no_partial_result_witness:
  "signTransaction toy_algosdk ([sample_txn, []] ! 1) (secretKey sample_account) =
     Inl (JsError ''malformed transaction'') \<and>
   createAlgorandSigner toy_algosdk (secretKey sample_account) [sample_txn, []] =
     Inl (JsError ''Failed to sign transaction: malformed transaction'')"
proof -
  let ?key = "secretKey sample_account"
  let ?txns = "[sample_txn, []]"
  have k: "1 < length ?txns" by simp
  have bad: "signTransaction toy_algosdk (?txns ! 1) ?key = Inl (JsError ''malformed transaction'')"
    by (simp add: toy_algosdk_def toy_signTransaction_def)
  have only: "\<And>t e'. signTransaction toy_algosdk t ?key = Inl e' \<Longrightarrow> e' = JsError ''malformed transaction''"
    by (auto simp: toy_algosdk_def toy_signTransaction_def split: if_splits)
  from signer_failure_has_no_partial_result [OF k bad] obtain j e' where
    "signTransaction toy_algosdk (?txns ! j) ?key = Inl e'"
    "createAlgorandSigner toy_algosdk ?key ?txns =
       Inl (JsError (''Failed to sign transaction: '' @ sign_cause e'))"
    by blast
  with only [of "?txns ! j" e'] bad show ?thesis by simp
qed

text \<open>
  Claim C4 as stated fails: a batch failing at index 0 and a batch failing at index 1
  throw the same error, so the error does not tell the index.
\<close>

theorem signing_error_has_no_index:
  "createAlgorandSigner toy_algosdk (secretKey sample_account) [[]] =
     Inl (JsError ''Failed to sign transaction: malformed transaction'') \<and>
   createAlgorandSigner toy_algosdk (secretKey sample_account) [sample_txn, []] =
     Inl (JsError ''Failed to sign transaction: malformed transaction'')"
  by code_simp

section \<open>Signature verifier\<close>

text \<open>
  What the verifier computes, for any library: \<open>True\<close> exactly when the transaction
  decodes, a signer is found at \<^verbatim>\<open>sig.signers[0]\<close> or \<^verbatim>\<open>sig.signer\<close>, the account's
  address decodes, and the two byte strings are equal.
\<close>

lemma verify_true_iff:
  "verifyWeb3AuthSignature lib b acct \<longleftrightarrow>
     (\<exists>d s a. decodeSignedTransaction lib b = Inr d \<and> txn_signer d = Some s \<and>
              decodeAddress lib (address acct) = Inr a \<and> s = publicKey a)"
proof (cases "decodeSignedTransaction lib b")
  case (Inl e)
  then show ?thesis by (simp add: verifyWeb3AuthSignature_def)
next
  case (Inr d)
  show ?thesis
  proof (cases "txn_signer d")
    case None
    with Inr show ?thesis by (simp add: verifyWeb3AuthSignature_def)
  next
    case (Some s)
    with Inr show ?thesis
      by (cases "decodeAddress lib (address acct)") (auto simp: verifyWeb3AuthSignature_def)
  qed
qed

text \<open>
  Claim C10. For every byte string that decodes as a signed transaction but carries no
  signer (no \<^verbatim>\<open>sig\<close>, or a \<^verbatim>\<open>sig\<close> with no \<^verbatim>\<open>signer\<close> member and no or an empty
  \<^verbatim>\<open>signers\<close> list), the verifier returns \<open>False\<close>, whatever the account.
\<close>

theorem verify_without_signer_is_false:
  assumes "decodeSignedTransaction lib b = Inr d"
    and "sig d = None \<or>
         (\<exists>s. sig d = Some s \<and> (prop_signers s = None \<or> prop_signers s = Some []) \<and>
              prop_signer s = None)"
  shows "verifyWeb3AuthSignature lib b acct = False"
  using assms
  by (auto simp: verifyWeb3AuthSignature_def txn_signer_def first_signer_def)

theorem verify_without_signer_is_false_witness:
  "decodeSignedTransaction toy_algosdk (replicate 65 0) =
     Inr \<lparr>txn = [0], sig = Some (SigBytes (replicate 64 0))\<rparr> \<and>
   verifyWeb3AuthSignature toy_algosdk (replicate 65 0) sample_account = False"
proof -
  have dec: "decodeSignedTransaction toy_algosdk (replicate 65 0) =
      Inr \<lparr>txn = [0], sig = Some (SigBytes (replicate 64 0))\<rparr>"
    by code_simp
  have "sig \<lparr>txn = [0], sig = Some (SigBytes (replicate 64 0))\<rparr> = None \<or>
      (\<exists>s. sig \<lparr>txn = [0], sig = Some (SigBytes (replicate 64 0))\<rparr> = Some s \<and>
           (prop_signers s = None \<or> prop_signers s = Some []) \<and> prop_signer s = None)"
    by simp
  from verify_without_signer_is_false [OF dec this] dec show ?thesis by simp
qed

text \<open>Its witness: the signed sample, decoded by the variant that exposes the signer.\<close>

theorem verify_true_iff_witness:
  "\<exists>d s a. decodeSignedTransaction toy_algosdk_with_signer sample_signed = Inr d \<and>
           txn_signer d = Some s \<and>
           decodeAddress toy_algosdk_with_signer (address sample_account) = Inr a \<and>
           s = publicKey a"
proof -
  have "verifyWeb3AuthSignature toy_algosdk_with_signer sample_signed sample_account"
    by code_simp
  with verify_true_iff [of toy_algosdk_with_signer sample_signed sample_account]
  show ?thesis by simp
qed

text \<open>
  When the decoded \<^verbatim>\<open>sig\<close> is the signature's bytes, no signer is found and the answer
  is \<open>False\<close> for every account.
\<close>

lemma verify_false_on_signature_bytes:
  assumes "decodeSignedTransaction lib b = Inr d" and "sig d = Some (SigBytes s)"
  shows "\<not> verifyWeb3AuthSignature lib b acct"
  using assms by (simp add: verifyWeb3AuthSignature_def txn_signer_def first_signer_def)

text \<open>
  When the decoder does expose the public half of the signing key as the signer, a
  transaction signed with a derived account's key verifies against that account.
\<close>

theorem verify_accepts_exposed_signer:
  assumes lib: "keypair_agrees lib"
    and acc: "getAlgorandAccount lib prov = Inr a"
    and signed: "createAlgorandSigner lib (secretKey a) [t] = Inr [b]"
    and dec: "decodeSignedTransaction lib b = Inr d"
    and signer: "txn_signer d = Some (drop 32 (secretKey a))"
  shows "verifyWeb3AuthSignature lib b a"
proof -
  from acc obtain m kp where kp: "mnemonicToSecretKey lib m = Inr kp"
    and a: "address a = addr kp" "secretKey a = sk kp"
    by (auto simp: getAlgorandAccount_def derive_body_def account_from_bytes_def Let_def
        split: option.splits sum.splits js_value.splits if_splits)
  from lib kp obtain da where "decodeAddress lib (addr kp) = Inr da"
    and "publicKey da = drop 32 (sk kp)"
    unfolding keypair_agrees_def by blast
  with dec signer a show ?thesis by (simp add: verifyWeb3AuthSignature_def)
qed

lemma toy_with_signer_keypair_agrees: "keypair_agrees toy_algosdk_with_signer"
  using toy_keypair_agrees
  by (simp add: keypair_agrees_def toy_algosdk_def toy_algosdk_with_signer_def)

theorem verify_accepts_exposed_signer_witness:
  "createAlgorandSigner toy_algosdk_with_signer (secretKey sample_account) [sample_txn] =
     Inr [sample_signed] \<and>
   verifyWeb3AuthSignature toy_algosdk_with_signer sample_signed sample_account"
proof -
  have acc: "getAlgorandAccount toy_algosdk_with_signer (Some (string_provider sample_key_hex)) =
      Inr sample_account"
    by code_simp
  have signed: "createAlgorandSigner toy_algosdk_with_signer (secretKey sample_account)
      [sample_txn] = Inr [sample_signed]"
    by code_simp
  have dec: "decodeSignedTransaction toy_algosdk_with_signer sample_signed =
      Inr \<lparr>txn = sample_txn,
           sig = Some (SigObject None (Some (drop 32 (secretKey sample_account))))\<rparr>"
    by code_simp
  have signer: "txn_signer \<lparr>txn = sample_txn,
      sig = Some (SigObject None (Some (drop 32 (secretKey sample_account))))\<rparr> =
      Some (drop 32 (secretKey sample_account))"
    by (simp add: txn_signer_def first_signer_def)
  from verify_accepts_exposed_signer [OF toy_with_signer_keypair_agrees acc signed dec signer]
    signed
  show ?thesis by simp
qed

text \<open>
  Claim C1. A transaction signed with the key of a derived account should verify against
  that account. The verifier looks for the signer's public key in \<^verbatim>\<open>sig.signers[0]\<close> and
  \<^verbatim>\<open>sig.signer\<close>; the library's decoded signed transaction holds the 64 signature bytes
  in \<^verbatim>\<open>sig\<close>, which have neither member. On the sample account and the sample
  transaction it signed, the verifier answers \<open>False\<close>.
\<close>

theorem verify_rejects_own_signature:
  "getAlgorandAccount toy_algosdk (Some (string_provider sample_key_hex)) = Inr sample_account \<and>
   createAlgorandSigner toy_algosdk (secretKey sample_account) [sample_txn] = Inr [sample_signed] \<and>
   decodeSignedTransaction toy_algosdk sample_signed =
     Inr \<lparr>txn = sample_txn, sig = Some (SigBytes (take 64 sample_signed))\<rparr> \<and>
   verifyWeb3AuthSignature toy_algosdk sample_signed sample_account = False"
  by code_simp

end
